theory Spec2Isabelle
  imports Complex_Main
begin

section \<open>Python values, strings and exceptions\<close>

text \<open>
  The router of \<^verbatim>\<open>a2a.py\<close> works on dynamically typed values: whatever
  \<^verbatim>\<open>json.loads\<close> decodes and whatever the completion callable returns. They are
  modelled by one datatype. A \<^verbatim>\<open>str\<close> is a list of characters with code points below
  256; a \<^verbatim>\<open>dict\<close> is the list of its items in insertion order; a \<^verbatim>\<open>float\<close> is kept
  by its value, of which the router only ever tests whether it is zero.
\<close>

datatype pyfloat = Finite rat | PosInf | NegInf | NaN

datatype pyval =
    PyNone
  | PyBool bool
  | PyInt int
  | PyFloat pyfloat
  | PyStr string
  | PyList "pyval list"
  | PyDict "(string \<times> pyval) list"

text \<open>
  The exceptions of the model are the classes \<^verbatim>\<open>except Exception\<close> catches, each with
  the text \<^verbatim>\<open>str(e)\<close> gives. \<^verbatim>\<open>JSONDecodeError\<close> and pydantic's \<^verbatim>\<open>ValidationError\<close>
  are subclasses of \<^verbatim>\<open>ValueError\<close>; \<open>OtherError\<close> stands for every other subclass of
  \<^verbatim>\<open>Exception\<close>.
\<close>

datatype exn =
    JSONDecodeError string
  | ValidationError string
  | ValueError string
  | TypeError string
  | AttributeError string
  | OtherError string

fun exn_str :: "exn \<Rightarrow> string" where
  "exn_str (JSONDecodeError m) = m"
| "exn_str (ValidationError m) = m"
| "exn_str (ValueError m) = m"
| "exn_str (TypeError m) = m"
| "exn_str (AttributeError m) = m"
| "exn_str (OtherError m) = m"

text \<open>\<^verbatim>\<open>isinstance(e, ValueError)\<close>: what \<^verbatim>\<open>except (json.JSONDecodeError, ValueError)\<close> catches.\<close>

fun is_ValueError :: "exn \<Rightarrow> bool" where
  "is_ValueError (JSONDecodeError m) = True"
| "is_ValueError (ValidationError m) = True"
| "is_ValueError (ValueError m) = True"
| "is_ValueError (TypeError m) = False"
| "is_ValueError (AttributeError m) = False"
| "is_ValueError (OtherError m) = False"

text \<open>Python's truth test \<^verbatim>\<open>bool(v)\<close>, the test of \<^verbatim>\<open>if v:\<close>.\<close>

fun truthy :: "pyval \<Rightarrow> bool" where
  "truthy PyNone = False"
| "truthy (PyBool b) = b"
| "truthy (PyInt i) = (i \<noteq> 0)"
| "truthy (PyFloat f) = (f \<noteq> Finite 0)"
| "truthy (PyStr s) = (s \<noteq> [])"
| "truthy (PyList xs) = (xs \<noteq> [])"
| "truthy (PyDict kvs) = (kvs \<noteq> [])"

text \<open>\<^verbatim>\<open>type(v).__name__\<close>, as it appears in the interpreter's error texts.\<close>

fun type_name :: "pyval \<Rightarrow> string" where
  "type_name PyNone = ''NoneType''"
| "type_name (PyBool b) = ''bool''"
| "type_name (PyInt i) = ''int''"
| "type_name (PyFloat f) = ''float''"
| "type_name (PyStr s) = ''str''"
| "type_name (PyList xs) = ''list''"
| "type_name (PyDict kvs) = ''dict''"

definition no_attribute :: "pyval \<Rightarrow> string \<Rightarrow> exn" where
  "no_attribute v attr =
     AttributeError
       ([CHR 0x27] @ type_name v @ [CHR 0x27] @ '' object has no attribute ''
        @ [CHR 0x27] @ attr @ [CHR 0x27])"

subsection \<open>String operations\<close>

text \<open>\<^verbatim>\<open>s.find(c)\<close> and \<^verbatim>\<open>s.rfind(c)\<close> for a one-character \<open>c\<close>: the first and the
  last index of \<open>c\<close>, or \<open>-1\<close>.\<close>

fun find_from :: "char \<Rightarrow> string \<Rightarrow> int \<Rightarrow> int" where
  "find_from c [] i = - 1"
| "find_from c (x # xs) i = (if x = c then i else find_from c xs (i + 1))"

definition str_find :: "string \<Rightarrow> char \<Rightarrow> int" where
  "str_find s c = find_from c s 0"

fun rfind_from :: "char \<Rightarrow> string \<Rightarrow> int \<Rightarrow> int \<Rightarrow> int" where
  "rfind_from c [] i found = found"
| "rfind_from c (x # xs) i found = rfind_from c xs (i + 1) (if x = c then i else found)"

definition str_rfind :: "string \<Rightarrow> char \<Rightarrow> int" where
  "str_rfind s c = rfind_from c s 0 (- 1)"

text \<open>The slice \<^verbatim>\<open>s[a:b]\<close>: a negative index counts from the end, and every index is
  clamped to the string.\<close>

definition slice_index :: "nat \<Rightarrow> int \<Rightarrow> nat" where
  "slice_index n i = (if i < 0 then nat (max 0 (i + int n)) else min n (nat i))"

definition py_slice :: "string \<Rightarrow> int \<Rightarrow> int \<Rightarrow> string" where
  "py_slice s a b =
     (let lo = slice_index (length s) a; hi = slice_index (length s) b
      in take (hi - lo) (drop lo s))"

text \<open>\<^verbatim>\<open>str.isspace\<close> on one character, \<^verbatim>\<open>s.strip()\<close> and \<^verbatim>\<open>s.lower()\<close>, for code
  points below 256.\<close>

definition is_space :: "char \<Rightarrow> bool" where
  "is_space c =
     (let n = (of_char c :: nat)
      in (9 \<le> n \<and> n \<le> 13) \<or> (28 \<le> n \<and> n \<le> 32) \<or> n = 133 \<or> n = 160)"

definition strip :: "string \<Rightarrow> string" where
  "strip s = rev (dropWhile is_space (rev (dropWhile is_space s)))"

definition lower_char :: "char \<Rightarrow> char" where
  "lower_char c =
     (let n = (of_char c :: nat)
      in if (65 \<le> n \<and> n \<le> 90) \<or> (192 \<le> n \<and> n \<le> 222 \<and> n \<noteq> 215)
         then char_of (n + 32) else c)"

definition lower :: "string \<Rightarrow> string" where
  "lower s = map lower_char s"

section \<open>The agent card\<close>

record Skill =
  name :: string
  description :: string
  satoshis :: "int option"

record AgentCard =
  name :: string
  description :: string
  skills :: "Skill list"
  satoshis :: "int option"
  nostr_pubkey :: string
  nostr_relays :: "string list"

section \<open>Conversation memory\<close>

text \<open>\<^verbatim>\<open>CHAT_HISTORY\<close>, the module's dictionary from thread id to accumulated text. The
  router reads and writes it; the model passes it in and returns it.\<close>

type_synonym chat_history = "string \<rightharpoonup> string"

text \<open>Lines 114--115: the request text the call works with. \<^verbatim>\<open>if thread_id\<close> is a truth
  test, so \<^verbatim>\<open>None\<close> and the empty string both count as no thread.\<close>

definition combined_message :: "chat_history \<Rightarrow> string \<Rightarrow> string option \<Rightarrow> string" where
  "combined_message CHAT_HISTORY user_message thread_id =
     (case thread_id of
        None \<Rightarrow> user_message
      | Some t \<Rightarrow>
          (if t \<noteq> [] then
             (case CHAT_HISTORY t of
                Some history \<Rightarrow> history @ ''\<newline>\<newline>'' @ user_message
              | None \<Rightarrow> user_message)
           else user_message))"

text \<open>Lines 116--117: the store after the call.\<close>

definition remember :: "chat_history \<Rightarrow> string \<Rightarrow> string option \<Rightarrow> chat_history" where
  "remember CHAT_HISTORY user_message thread_id =
     (case thread_id of
        None \<Rightarrow> CHAT_HISTORY
      | Some t \<Rightarrow> (if t \<noteq> [] then CHAT_HISTORY(t \<mapsto> user_message) else CHAT_HISTORY))"

section \<open>The prompt\<close>

definition prompt_head :: string where
  "prompt_head =
     ''You are an agent router that determines if an agent can handle a user's request.''
     @ ''\<newline>\<newline>Agent Information:\<newline>Name: ''"

definition prompt_instructions :: string where
  "prompt_instructions =
     ''\<newline>Analyze if the agent can handle this request based on their skills and description and chat history.''
     @ ''\<newline>Consider both the agent's capabilities and whether the request matches their purpose.''
     @ ''\<newline>\<newline>The agent may need to use multiple skills to handle the request. If so, include all''
     @ ''\<newline>relevant skills.''
     @ ''\<newline>\<newline>The user_message should be a friendly, conversational message that:''
     @ ''\<newline>- Confirms the action to be taken''
     @ ''\<newline>- Explains what will be done in simple terms''
     @ ''\<newline>- Asks for confirmation to proceed''
     @ ''\<newline>- Is concise (1-2 sentences max)''
     @ ''\<newline>\<newline>Respond with a JSON object with these fields:''
     @ ''\<newline>{''
     @ ''\<newline>    \"can_handle\": boolean,    # Whether the agent can handle this request''
     @ ''\<newline>    \"user_message\": string,   # Friendly message to ask the user if they want to proceed''
     @ ''\<newline>    \"skills_used\": [string]   # Names of skills being used, if any''
     @ ''\<newline>}''
     @ ''\<newline>    ''"

definition skill_line :: "Skill \<Rightarrow> string" where
  "skill_line skill = ''\<newline>- '' @ Skill.name skill @ '': '' @ Skill.description skill"

text \<open>Lines 123--154: the prompt for a card and the (history-augmented) request text.\<close>

definition build_prompt :: "AgentCard \<Rightarrow> string \<Rightarrow> string" where
  "build_prompt agent_card user_message =
     prompt_head @ AgentCard.name agent_card
     @ ''\<newline>Description: '' @ AgentCard.description agent_card
     @ ''\<newline>\<newline>Skills:''
     @ concat (map skill_line (skills agent_card))
     @ ''\<newline>\<newline>User Request History: \<newline>\<newline>'' @ user_message @ ''\<newline>\<newline>''
     @ prompt_instructions"

section \<open>The router\<close>

text \<open>The router returns the tuple \<^verbatim>\<open>(can_handle, cost, user_message, skills_used)\<close>.
  Three of its components are whatever the decoded object holds under their keys, so
  they are Python values; the cost is an integer computed by the router.\<close>

type_synonym decision = "pyval \<times> int \<times> pyval \<times> pyval"

text \<open>\<^verbatim>\<open>d.get(key, default)\<close> on a decoded value: a dictionary answers, anything else has
  no \<^verbatim>\<open>get\<close>.\<close>

definition dict_get :: "pyval \<Rightarrow> string \<Rightarrow> pyval \<Rightarrow> exn + pyval" where
  "dict_get d k dflt =
     (case d of
        PyDict kvs \<Rightarrow> Inr (case map_of kvs k of Some v \<Rightarrow> v | None \<Rightarrow> dflt)
      | _ \<Rightarrow> Inl (no_attribute d ''get''))"

text \<open>\<^verbatim>\<open>for skill_name in skills_used\<close>: the values the loop runs over. A list gives its
  elements, a string its characters, a dictionary its keys; a number is not iterable.
  (The loop is only reached for a truthy value, so \<^verbatim>\<open>None\<close> never gets here; it is not
  iterable either.)\<close>

fun iterate :: "pyval \<Rightarrow> exn + pyval list" where
  "iterate (PyList xs) = Inr xs"
| "iterate (PyStr s) = Inr (map (\<lambda>c. PyStr [c]) s)"
| "iterate (PyDict kvs) = Inr (map (\<lambda>kv. PyStr (fst kv)) kvs)"
| "iterate v = Inl (TypeError ([CHR 0x27] @ type_name v @ [CHR 0x27] @ '' object is not iterable''))"

text \<open>Lines 180--183, the inner loop for one \<^verbatim>\<open>skill_name\<close>: what it adds to
  \<^verbatim>\<open>skill_cost\<close>. The first skill of the card whose lowered name equals the lowered
  \<^verbatim>\<open>skill_name\<close> and whose price is set gives its price and ends the loop; with no
  such skill nothing is added. \<^verbatim>\<open>skill_name.lower()\<close> is evaluated for every skill
  visited, so a \<^verbatim>\<open>skill_name\<close> that is not a string raises on the first one.\<close>

fun skill_price :: "Skill list \<Rightarrow> pyval \<Rightarrow> exn + int" where
  "skill_price [] skill_name = Inr 0"
| "skill_price (skill # rest) skill_name =
     (case skill_name of
        PyStr n \<Rightarrow>
          (case Skill.satoshis skill of
             Some price \<Rightarrow>
               (if lower (Skill.name skill) = lower n then Inr price
                else skill_price rest skill_name)
           | None \<Rightarrow> skill_price rest skill_name)
      | _ \<Rightarrow> Inl (no_attribute skill_name ''lower''))"

text \<open>Lines 178--183, the outer loop, with \<^verbatim>\<open>skill_cost\<close> as accumulator.\<close>

fun sum_skill_cost :: "Skill list \<Rightarrow> pyval list \<Rightarrow> int \<Rightarrow> exn + int" where
  "sum_skill_cost card_skills [] skill_cost = Inr skill_cost"
| "sum_skill_cost card_skills (skill_name # rest) skill_cost =
     (case skill_price card_skills skill_name of
        Inl e \<Rightarrow> Inl e
      | Inr price \<Rightarrow> sum_skill_cost card_skills rest (skill_cost + price))"

text \<open>Lines 177--186: the value of \<^verbatim>\<open>cost\<close> after the skill-based part.\<close>

definition skill_based_cost :: "AgentCard \<Rightarrow> pyval \<Rightarrow> exn + int" where
  "skill_based_cost agent_card skills_used =
     (if truthy skills_used then
        (case iterate skills_used of
           Inl e \<Rightarrow> Inl e
         | Inr names \<Rightarrow>
             (case sum_skill_cost (skills agent_card) names 0 of
                Inl e \<Rightarrow> Inl e
              | Inr skill_cost \<Rightarrow> Inr (if skill_cost > 0 then skill_cost else 0)))
      else Inr 0)"

text \<open>Lines 174--189: \<^verbatim>\<open>cost\<close>.\<close>

definition total_cost :: "AgentCard \<Rightarrow> pyval \<Rightarrow> pyval \<Rightarrow> exn + int" where
  "total_cost agent_card can_handle skills_used =
     (if truthy can_handle then
        (case skill_based_cost agent_card skills_used of
           Inl e \<Rightarrow> Inl e
         | Inr cost \<Rightarrow>
             (case AgentCard.satoshis agent_card of
                Some base \<Rightarrow> Inr (cost + base)
              | None \<Rightarrow> Inr cost))
      else Inr 0)"

text \<open>Lines 167--192: from the decoded \<^verbatim>\<open>result\<close> to the returned tuple.\<close>

definition decide :: "AgentCard \<Rightarrow> pyval \<Rightarrow> exn + decision" where
  "decide agent_card result =
     (case dict_get result ''can_handle'' (PyBool False) of
        Inl e \<Rightarrow> Inl e
      | Inr can_handle \<Rightarrow>
     (case dict_get result ''user_message'' (PyStr []) of
        Inl e \<Rightarrow> Inl e
      | Inr user_message \<Rightarrow>
     (case dict_get result ''skills_used'' (PyList []) of
        Inl e \<Rightarrow> Inl e
      | Inr skills_used \<Rightarrow>
     (case total_cost agent_card can_handle skills_used of
        Inl e \<Rightarrow> Inl e
      | Inr cost \<Rightarrow> Inr (can_handle, cost, user_message, skills_used)))))"

text \<open>The two recovery decisions, lines 196 and 200.\<close>

definition parse_error :: "exn \<Rightarrow> decision" where
  "parse_error e =
     (PyBool False, 0, PyStr (''Error parsing LLM response: '' @ exn_str e), PyList [])"

definition routing_error :: "exn \<Rightarrow> decision" where
  "routing_error e =
     (PyBool False, 0, PyStr (''Error in agent routing: '' @ exn_str e), PyList [])"

text \<open>Lines 165--196, the inner \<^verbatim>\<open>try\<close>: \<^verbatim>\<open>json.loads\<close> on the stripped text and the
  decision; a \<^verbatim>\<open>ValueError\<close> raised anywhere in it is recovered, any other exception
  leaves the block. \<^verbatim>\<open>json.loads\<close> belongs to the interpreter's library, not to this
  repository: it is the parameter \<open>loads\<close>, a function from the text to the decoded
  value or the exception raised.\<close>

definition parse_response :: "(string \<Rightarrow> exn + pyval) \<Rightarrow> AgentCard \<Rightarrow> string \<Rightarrow> exn + decision" where
  "parse_response loads agent_card response =
     (case (case loads (strip response) of
              Inl e \<Rightarrow> Inl e
            | Inr result \<Rightarrow> decide agent_card result) of
        Inl e \<Rightarrow> (if is_ValueError e then Inr (parse_error e) else Inl e)
      | Inr d \<Rightarrow> Inr d)"

text \<open>Line 161: \<^verbatim>\<open>response[response.find('{'):response.rfind('}')+1]\<close>.\<close>

definition brace_slice :: "string \<Rightarrow> string" where
  "brace_slice response =
     py_slice response (str_find response (CHR ''{'')) (str_rfind response (CHR ''}'') + 1)"

text \<open>Lines 157--196, the body of the outer \<^verbatim>\<open>try\<close>, from the outcome of
  \<^verbatim>\<open>llm_callable(prompt)\<close>: the exception it raised or the value it returned. A
  returned value that is not a string has no \<^verbatim>\<open>find\<close>.\<close>

definition route_response :: "(string \<Rightarrow> exn + pyval) \<Rightarrow> AgentCard \<Rightarrow> exn + pyval \<Rightarrow> exn + decision" where
  "route_response loads agent_card outcome =
     (case outcome of
        Inl e \<Rightarrow> Inl e
      | Inr (PyStr response) \<Rightarrow> parse_response loads agent_card (brace_slice response)
      | Inr v \<Rightarrow> Inl (no_attribute v ''find''))"

text \<open>Lines 113--155: what the router does before it invokes the completion callable.
  It gives the prompt and the store as the callable finds it.\<close>

definition prepare :: "chat_history \<Rightarrow> string \<Rightarrow> AgentCard \<Rightarrow> string option \<Rightarrow> string \<times> chat_history" where
  "prepare CHAT_HISTORY user_message agent_card thread_id =
     (let user_message = combined_message CHAT_HISTORY user_message thread_id;
          CHAT_HISTORY = remember CHAT_HISTORY user_message thread_id
      in (build_prompt agent_card user_message, CHAT_HISTORY))"

text \<open>\<^verbatim>\<open>agent_router\<close>, lines 95--200. \<open>loads\<close> and \<open>CHAT_HISTORY\<close> are what the
  function takes from its module; the other arguments are the source's, in its order.
  The completion callable is a function from the prompt to the exception it raises or
  the value it returns. The result is the returned tuple and the store the call leaves.
  The \<^verbatim>\<open>print\<close> calls are left out.\<close>

definition agent_router ::
  "(string \<Rightarrow> exn + pyval) \<Rightarrow> chat_history \<Rightarrow> string \<Rightarrow> AgentCard \<Rightarrow> (string \<Rightarrow> exn + pyval)
     \<Rightarrow> string option \<Rightarrow> decision \<times> chat_history" where
  "agent_router loads CHAT_HISTORY user_message agent_card llm_callable thread_id =
     (case prepare CHAT_HISTORY user_message agent_card thread_id of
        (prompt, CHAT_HISTORY) \<Rightarrow>
          (case route_response loads agent_card (llm_callable prompt) of
             Inr d \<Rightarrow> (d, CHAT_HISTORY)
           | Inl e \<Rightarrow> (routing_error e, CHAT_HISTORY)))"



definition user_message_of :: "decision \<Rightarrow> pyval" where
  "user_message_of d = fst (snd (snd d))"

definition skills_used_of :: "decision \<Rightarrow> pyval" where
  "skills_used_of d = snd (snd (snd d))"

subsection \<open>The structured response\<close>

record RouterResponse =
  can_handle :: bool
  cost_sats :: int
  user_message :: string
  skills_used :: "string list"

text \<open>
  \<^verbatim>\<open>RouterResponse\<close> is a pydantic model (version 2: the router calls
  \<^verbatim>\<open>model_dump\<close>), so its constructor validates the arguments against the declared
  field types, in pydantic's default lax mode, and raises \<^verbatim>\<open>ValidationError\<close> for an
  argument it cannot take. A \<^verbatim>\<open>bool\<close> field takes a boolean, the integers and floats
  0 and 1 and a few words; a \<^verbatim>\<open>str\<close> field takes a string only; a \<^verbatim>\<open>list[str]\<close> field
  takes a list of strings only (of the values \<^verbatim>\<open>json.loads\<close> gives). The texts of the
  errors stand in for pydantic's and name the field.
\<close>

definition validate_bool :: "string \<Rightarrow> pyval \<Rightarrow> exn + bool" where
  "validate_bool field v =
     (case v of
        PyBool b \<Rightarrow> Inr b
      | PyInt i \<Rightarrow> (if i = 0 then Inr False else if i = 1 then Inr True
                    else Inl (ValidationError field))
      | PyFloat f \<Rightarrow> (if f = Finite 0 then Inr False else if f = Finite 1 then Inr True
                      else Inl (ValidationError field))
      | PyStr s \<Rightarrow>
          (if lower s \<in> set [''0'', ''off'', ''f'', ''false'', ''n'', ''no''] then Inr False
           else if lower s \<in> set [''1'', ''on'', ''t'', ''true'', ''y'', ''yes''] then Inr True
           else Inl (ValidationError field))
      | _ \<Rightarrow> Inl (ValidationError field))"

definition validate_str :: "string \<Rightarrow> pyval \<Rightarrow> exn + string" where
  "validate_str field v = (case v of PyStr s \<Rightarrow> Inr s | _ \<Rightarrow> Inl (ValidationError field))"

fun validate_strs :: "string \<Rightarrow> pyval list \<Rightarrow> exn + string list" where
  "validate_strs field [] = Inr []"
| "validate_strs field (v # vs) =
     (case validate_str field v of
        Inl e \<Rightarrow> Inl e
      | Inr s \<Rightarrow> (case validate_strs field vs of Inl e \<Rightarrow> Inl e | Inr ss \<Rightarrow> Inr (s # ss)))"

definition validate_str_list :: "string \<Rightarrow> pyval \<Rightarrow> exn + string list" where
  "validate_str_list field v =
     (case v of PyList vs \<Rightarrow> validate_strs field vs | _ \<Rightarrow> Inl (ValidationError field))"

text \<open>\<^verbatim>\<open>RouterResponse(can_handle=..., cost_sats=..., user_message=..., skills_used=...)\<close>,
  lines 217--222. The cost is an integer already.\<close>

definition new_RouterResponse :: "pyval \<Rightarrow> int \<Rightarrow> pyval \<Rightarrow> pyval \<Rightarrow> exn + RouterResponse" where
  "new_RouterResponse c cost m s =
     (case validate_bool ''can_handle'' c of
        Inl e \<Rightarrow> Inl e
      | Inr b \<Rightarrow>
     (case validate_str ''user_message'' m of
        Inl e \<Rightarrow> Inl e
      | Inr text \<Rightarrow>
     (case validate_str_list ''skills_used'' s of
        Inl e \<Rightarrow> Inl e
      | Inr names \<Rightarrow>
          Inr \<lparr>can_handle = b, cost_sats = cost, user_message = text, skills_used = names\<rparr>)))"

text \<open>\<^verbatim>\<open>agent_router_v2\<close>, lines 203--222: the response, or the exception the constructor
  raises, and the store. (The field names of the record are constants from here on, so
  the request text is called \<open>message\<close>.)\<close>

definition agent_router_v2 ::
  "(string \<Rightarrow> exn + pyval) \<Rightarrow> chat_history \<Rightarrow> string \<Rightarrow> AgentCard \<Rightarrow> (string \<Rightarrow> exn + pyval)
     \<Rightarrow> string option \<Rightarrow> (exn + RouterResponse) \<times> chat_history" where
  "agent_router_v2 loads CHAT_HISTORY message agent_card llm_callable thread_id =
     (case agent_router loads CHAT_HISTORY message agent_card llm_callable thread_id of
        ((c, cost, m, s), CHAT_HISTORY) \<Rightarrow> (new_RouterResponse c cost m s, CHAT_HISTORY))"

section \<open>A JSON decoder for closed examples\<close>

text \<open>
  Every general theorem below holds for an arbitrary decoder \<open>loads\<close>. To evaluate the
  router on concrete completion texts a concrete decoder is needed; \<open>json_loads\<close> follows
  the grammar \<^verbatim>\<open>json.loads\<close> accepts: whitespace, \<^verbatim>\<open>null\<close>, \<^verbatim>\<open>true\<close>, \<^verbatim>\<open>false\<close>,
  \<^verbatim>\<open>NaN\<close> and the infinities, integers, strings with the one-character escapes,
  arrays and objects (a repeated key keeps its first place and its last value, as a
  Python dictionary does). A number with a fraction or an exponent and a \<^verbatim>\<open>\u\<close>
  escape are reported as \<open>Unsupported\<close> instead of being decoded. A malformed text is a
  \<^verbatim>\<open>JSONDecodeError\<close>; its text is Python's for the empty input, and otherwise stands
  in for Python's, which names the place of the error.
\<close>

datatype 'a scan = Scanned 'a string | Malformed | Unsupported

definition is_json_ws :: "char \<Rightarrow> bool" where
  "is_json_ws c = (c = CHR '' '' \<or> c = CHR 0x09 \<or> c = CHR 0x0A \<or> c = CHR 0x0D)"

definition skip_ws :: "string \<Rightarrow> string" where
  "skip_ws s = dropWhile is_json_ws s"

definition is_digit :: "char \<Rightarrow> bool" where
  "is_digit c = (48 \<le> (of_char c :: nat) \<and> (of_char c :: nat) \<le> 57)"

fun digits_nat :: "string \<Rightarrow> nat \<Rightarrow> nat" where
  "digits_nat [] acc = acc"
| "digits_nat (c # cs) acc = digits_nat cs (10 * acc + ((of_char c :: nat) - 48))"

definition unescape :: "char \<Rightarrow> char option" where
  "unescape c =
     (if c = CHR 0x22 then Some (CHR 0x22)
      else if c = CHR 0x5C then Some (CHR 0x5C)
      else if c = CHR ''/'' then Some (CHR ''/'')
      else if c = CHR ''b'' then Some (CHR 0x08)
      else if c = CHR ''f'' then Some (CHR 0x0C)
      else if c = CHR ''n'' then Some (CHR 0x0A)
      else if c = CHR ''r'' then Some (CHR 0x0D)
      else if c = CHR ''t'' then Some (CHR 0x09)
      else None)"

text \<open>A string, read from behind its opening quote to its closing quote.\<close>

fun scan_string :: "string \<Rightarrow> string scan" where
  "scan_string [] = Malformed"
| "scan_string [c] = (if c = CHR 0x22 then Scanned [] [] else Malformed)"
| "scan_string (c # d # cs) =
     (if c = CHR 0x22 then Scanned [] (d # cs)
      else if c = CHR 0x5C then
        (if d = CHR ''u'' then Unsupported
         else (case unescape d of
                 None \<Rightarrow> Malformed
               | Some ch \<Rightarrow>
                   (case scan_string cs of
                      Scanned str rest \<Rightarrow> Scanned (ch # str) rest
                    | Malformed \<Rightarrow> Malformed
                    | Unsupported \<Rightarrow> Unsupported)))
      else if (of_char c :: nat) < 32 then Malformed
      else (case scan_string (d # cs) of
              Scanned str rest \<Rightarrow> Scanned (c # str) rest
            | Malformed \<Rightarrow> Malformed
            | Unsupported \<Rightarrow> Unsupported))"

text \<open>An integer: an optional minus sign, then \<^verbatim>\<open>0\<close> or a digit string that does not
  start with \<^verbatim>\<open>0\<close>.\<close>

definition scan_digits :: "string \<Rightarrow> nat scan" where
  "scan_digits s =
     (case s of
        [] \<Rightarrow> Malformed
      | c # cs \<Rightarrow>
          (if \<not> is_digit c then Malformed
           else (let ds = (if c = CHR ''0'' then [c] else takeWhile is_digit s);
                     rest = drop (length ds) s
                 in (case rest of
                       [] \<Rightarrow> Scanned (digits_nat ds 0) rest
                     | r # rs \<Rightarrow>
                         (if r = CHR ''.'' \<or> r = CHR ''e'' \<or> r = CHR ''E'' then Unsupported
                          else Scanned (digits_nat ds 0) rest)))))"

definition scan_number :: "string \<Rightarrow> pyval scan" where
  "scan_number s =
     (case s of
        [] \<Rightarrow> Malformed
      | c # cs \<Rightarrow>
          (if c = CHR ''-'' then
             (case scan_digits cs of
                Scanned n rest \<Rightarrow> Scanned (PyInt (- int n)) rest
              | Malformed \<Rightarrow> Malformed
              | Unsupported \<Rightarrow> Unsupported)
           else
             (case scan_digits s of
                Scanned n rest \<Rightarrow> Scanned (PyInt (int n)) rest
              | Malformed \<Rightarrow> Malformed
              | Unsupported \<Rightarrow> Unsupported)))"

definition starts_with :: "string \<Rightarrow> string \<Rightarrow> bool" where
  "starts_with w s = (take (length w) s = w)"

text \<open>\<^verbatim>\<open>d[k] = v\<close> on the items of a dictionary.\<close>

fun dict_set :: "(string \<times> pyval) list \<Rightarrow> string \<Rightarrow> pyval \<Rightarrow> (string \<times> pyval) list" where
  "dict_set [] k v = [(k, v)]"
| "dict_set ((k', v') # kvs) k v = (if k' = k then (k, v) # kvs else (k', v') # dict_set kvs k v)"

text \<open>The values, by recursive descent. The first argument bounds the number of nested
  calls; \<open>json_loads\<close> starts it at the length of the text, which no descent exceeds,
  since every call reads at least one character.\<close>

fun scan_value :: "nat \<Rightarrow> string \<Rightarrow> pyval scan"
  and scan_elements :: "nat \<Rightarrow> string \<Rightarrow> pyval list \<Rightarrow> pyval scan"
  and scan_members :: "nat \<Rightarrow> string \<Rightarrow> (string \<times> pyval) list \<Rightarrow> pyval scan" where
  "scan_value 0 s = Unsupported"
| "scan_value (Suc k) s =
     (case s of
        [] \<Rightarrow> Malformed
      | c # cs \<Rightarrow>
          (if c = CHR 0x22 then
             (case scan_string cs of
                Scanned str rest \<Rightarrow> Scanned (PyStr str) rest
              | Malformed \<Rightarrow> Malformed
              | Unsupported \<Rightarrow> Unsupported)
           else if c = CHR ''{'' then
             (case skip_ws cs of
                [] \<Rightarrow> Malformed
              | d # ds \<Rightarrow> (if d = CHR ''}'' then Scanned (PyDict []) ds
                           else scan_members k (d # ds) []))
           else if c = CHR ''['' then
             (case skip_ws cs of
                [] \<Rightarrow> Malformed
              | d # ds \<Rightarrow> (if d = CHR '']'' then Scanned (PyList []) ds
                           else scan_elements k (d # ds) []))
           else if starts_with ''null'' s then Scanned PyNone (drop 4 s)
           else if starts_with ''true'' s then Scanned (PyBool True) (drop 4 s)
           else if starts_with ''false'' s then Scanned (PyBool False) (drop 5 s)
           else if starts_with ''NaN'' s then Scanned (PyFloat NaN) (drop 3 s)
           else if starts_with ''Infinity'' s then Scanned (PyFloat PosInf) (drop 8 s)
           else if starts_with ''-Infinity'' s then Scanned (PyFloat NegInf) (drop 9 s)
           else scan_number s))"
| "scan_elements 0 s acc = Unsupported"
| "scan_elements (Suc k) s acc =
     (case scan_value k s of
        Scanned v rest \<Rightarrow>
          (case skip_ws rest of
             [] \<Rightarrow> Malformed
           | d # ds \<Rightarrow>
               (if d = CHR '','' then scan_elements k (skip_ws ds) (acc @ [v])
                else if d = CHR '']'' then Scanned (PyList (acc @ [v])) ds
                else Malformed))
      | Malformed \<Rightarrow> Malformed
      | Unsupported \<Rightarrow> Unsupported)"
| "scan_members 0 s acc = Unsupported"
| "scan_members (Suc k) s acc =
     (case s of
        [] \<Rightarrow> Malformed
      | q # cs \<Rightarrow>
          (if q \<noteq> CHR 0x22 then Malformed
           else
             (case scan_string cs of
                Scanned key rest \<Rightarrow>
                  (case skip_ws rest of
                     [] \<Rightarrow> Malformed
                   | colon # after_colon \<Rightarrow>
                       (if colon \<noteq> CHR '':'' then Malformed
                        else
                          (case scan_value k (skip_ws after_colon) of
                             Scanned v rest' \<Rightarrow>
                               (case skip_ws rest' of
                                  [] \<Rightarrow> Malformed
                                | d # ds \<Rightarrow>
                                    (if d = CHR '','' then
                                       scan_members k (skip_ws ds) (dict_set acc key v)
                                     else if d = CHR ''}'' then
                                       Scanned (PyDict (dict_set acc key v)) ds
                                     else Malformed))
                           | Malformed \<Rightarrow> Malformed
                           | Unsupported \<Rightarrow> Unsupported)))
              | Malformed \<Rightarrow> Malformed
              | Unsupported \<Rightarrow> Unsupported)))"

definition json_loads :: "string \<Rightarrow> exn + pyval" where
  "json_loads s =
     (if s = [] then Inl (JSONDecodeError ''Expecting value: line 1 column 1 (char 0)'')
      else
        (case scan_value (Suc (length s)) (skip_ws s) of
           Scanned v rest \<Rightarrow>
             (if skip_ws rest = [] then Inr v else Inl (JSONDecodeError ''Extra data''))
         | Malformed \<Rightarrow> Inl (JSONDecodeError ''Malformed JSON text'')
         | Unsupported \<Rightarrow> Inl (OtherError ''json_loads: outside the modelled grammar'')))"

section \<open>The messaging facade\<close>

subsection \<open>Profile metadata\<close>

text \<open>
  \<^verbatim>\<open>Metadata\<close> is a class of the pynostr library. The model keeps what
  \<^verbatim>\<open>update_metadata\<close> uses of it. An object holds the ten profile fields, which the
  class declares as strings, the time stamp and the content; \<open>other\<close> holds the keys
  that \<^verbatim>\<open>metadata_to_dict\<close> reports besides the ten fields, each with the JSON text of
  its value. \<^verbatim>\<open>metadata_to_dict\<close> gives the dictionary of the object: a profile field is
  in it only when it holds a non-empty string, and the other keys are in it as they
  are; \<^verbatim>\<open>set_metadata\<close> writes a dictionary into an object; \<^verbatim>\<open>update()\<close> sets the
  content to a serialisation of the object's dictionary. The serialisation is the
  parameter \<open>serialize\<close>. The record \<open>profile\<close> is the ten fields; it also stands for the
  keyword arguments of \<^verbatim>\<open>update_metadata\<close>, each \<^verbatim>\<open>None\<close> unless the caller gives it.
\<close>

record profile =
  name :: "string option"
  about :: "string option"
  nip05 :: "string option"
  picture :: "string option"
  banner :: "string option"
  lud16 :: "string option"
  lud06 :: "string option"
  username :: "string option"
  display_name :: "string option"
  website :: "string option"

record metadata_dict = profile +
  other :: "(string \<times> string) list"

record Metadata = metadata_dict +
  created_at :: int
  content :: string

definition no_profile :: profile where
  "no_profile =
     \<lparr>name = None, about = None, nip05 = None, picture = None, banner = None, lud16 = None,
      lud06 = None, username = None, display_name = None, website = None\<rparr>"

text \<open>A profile field as \<^verbatim>\<open>metadata_to_dict\<close> reports it: an unset field and an empty
  string are both left out of the dictionary.\<close>

definition kept :: "string option \<Rightarrow> string option" where
  "kept v = (case v of Some s \<Rightarrow> (if s = [] then None else Some s) | None \<Rightarrow> None)"

definition metadata_to_dict :: "'a metadata_dict_scheme \<Rightarrow> metadata_dict" where
  "metadata_to_dict m =
     \<lparr>name = kept (name m), about = kept (about m), nip05 = kept (nip05 m),
      picture = kept (picture m), banner = kept (banner m), lud16 = kept (lud16 m),
      lud06 = kept (lud06 m), username = kept (username m),
      display_name = kept (display_name m), website = kept (website m),
      other = other m\<rparr>"

text \<open>The test of \<^verbatim>\<open>if name:\<close> on an argument of type \<^verbatim>\<open>Optional[str]\<close>: \<^verbatim>\<open>None\<close> and
  the empty string are both false.\<close>

definition supplied :: "string option \<Rightarrow> bool" where
  "supplied arg = (case arg of Some s \<Rightarrow> s \<noteq> [] | None \<Rightarrow> False)"

text \<open>\<^verbatim>\<open>if name: metadata.name = name\<close>, for one field.\<close>

definition overlay :: "string option \<Rightarrow> string option \<Rightarrow> string option" where
  "overlay arg stored = (if supplied arg then arg else stored)"

text \<open>Lines 120--144: the metadata object after \<^verbatim>\<open>metadata.update()\<close>, from what
  \<^verbatim>\<open>get_metadata_for_pubkey\<close> returned, the clock and the keyword arguments. \<open>stored\<close> is
  the fresh object after \<^verbatim>\<open>set_metadata(previous_metadata.metadata_to_dict())\<close>, or the
  fresh object itself when there is no previous metadata; \<open>d\<close> holds the fields after
  the ten assignments.\<close>

definition new_metadata ::
  "(metadata_dict \<Rightarrow> string) \<Rightarrow> int \<Rightarrow> Metadata option \<Rightarrow> profile \<Rightarrow> Metadata" where
  "new_metadata serialize now previous_metadata args =
     (let stored = (case previous_metadata of
                      Some previous \<Rightarrow> metadata_to_dict previous
                    | None \<Rightarrow> profile.extend no_profile (metadata_dict.fields []));
          d = \<lparr>name = overlay (name args) (name stored),
               about = overlay (about args) (about stored),
               nip05 = overlay (nip05 args) (nip05 stored),
               picture = overlay (picture args) (picture stored),
               banner = overlay (banner args) (banner stored),
               lud16 = overlay (lud16 args) (lud16 stored),
               lud06 = overlay (lud06 args) (lud06 stored),
               username = overlay (username args) (username stored),
               display_name = overlay (display_name args) (display_name stored),
               website = overlay (website args) (website stored),
               other = other stored\<rparr>
      in metadata_dict.extend d (Metadata.fields now (serialize (metadata_to_dict d))))"

text \<open>Lines 145--149: the event \<^verbatim>\<open>update_metadata\<close> hands to \<^verbatim>\<open>send_event\<close>, if any.\<close>

definition metadata_to_send ::
  "(metadata_dict \<Rightarrow> string) \<Rightarrow> int \<Rightarrow> Metadata option \<Rightarrow> profile \<Rightarrow> Metadata option" where
  "metadata_to_send serialize now previous_metadata args =
     (let metadata = new_metadata serialize now previous_metadata args
      in (case previous_metadata of
            Some previous \<Rightarrow> (if content previous = content metadata then None else Some metadata)
          | None \<Rightarrow> Some metadata))"

text \<open>
  Modelled from the spec: \<^verbatim>\<open>EventRelay\<close> (\<^verbatim>\<open>agentstr.nostr_event_relay\<close>) is not
  among the sources. The spec has \<^verbatim>\<open>fetchProfile\<close> return ``the most recent
  profile-metadata event authored by the given key, or none if absent''. The relay is
  therefore the list of the profile events this identity has published, newest first;
  an event is kept as the metadata object it was made from.
\<close>

type_synonym relay = "Metadata list"

definition get_metadata_for_pubkey :: "relay \<Rightarrow> Metadata option" where
  "get_metadata_for_pubkey r = (case r of [] \<Rightarrow> None | newest # older \<Rightarrow> Some newest)"

definition send_event :: "Metadata \<Rightarrow> relay \<Rightarrow> relay" where
  "send_event e r = e # r"

text \<open>\<^verbatim>\<open>update_metadata\<close>, lines 100--149, as a step of the relay.\<close>

definition update_metadata ::
  "(metadata_dict \<Rightarrow> string) \<Rightarrow> int \<Rightarrow> profile \<Rightarrow> relay \<Rightarrow> relay" where
  "update_metadata serialize now args r =
     (case metadata_to_send serialize now (get_metadata_for_pubkey r) args of
        Some metadata \<Rightarrow> send_event metadata r
      | None \<Rightarrow> r)"

text \<open>The number of events a step published.\<close>

definition publishes :: "relay \<Rightarrow> relay \<Rightarrow> nat" where
  "publishes before after = length after - length before"

text \<open>
  A serialisation for closed examples. It writes a dictionary as \<^verbatim>\<open>json.dumps\<close> does by
  default: items separated by a comma and a space, key and value by a colon and a
  space, and in a string the quote, the backslash and every character outside the
  printable ASCII range escaped. The profile fields come first, in the order of the
  record, and the other keys after them. This order is a choice of the model: the
  general theorems hold for every serialisation, and the closed examples compare
  contents only for equality.
\<close>

definition hex_digit :: "nat \<Rightarrow> char" where
  "hex_digit n = (if n < 10 then char_of (48 + n) else char_of (87 + n))"

definition json_escape :: "char \<Rightarrow> string" where
  "json_escape c =
     (let n = (of_char c :: nat)
      in if c = CHR 0x22 then [CHR 0x5C, CHR 0x22]
         else if c = CHR 0x5C then [CHR 0x5C, CHR 0x5C]
         else if c = CHR 0x0A then [CHR 0x5C, CHR ''n'']
         else if c = CHR 0x0D then [CHR 0x5C, CHR ''r'']
         else if c = CHR 0x09 then [CHR 0x5C, CHR ''t'']
         else if c = CHR 0x08 then [CHR 0x5C, CHR ''b'']
         else if c = CHR 0x0C then [CHR 0x5C, CHR ''f'']
         else if n < 32 \<or> 126 < n
           then [CHR 0x5C, CHR ''u'', CHR ''0'', CHR ''0'', hex_digit (n div 16), hex_digit (n mod 16)]
         else [c])"

definition json_string :: "string \<Rightarrow> string" where
  "json_string s = [CHR 0x22] @ concat (map json_escape s) @ [CHR 0x22]"

definition json_item :: "string \<Rightarrow> string option \<Rightarrow> string list" where
  "json_item k v =
     (case v of
        None \<Rightarrow> []
      | Some s \<Rightarrow> [json_string k @ '': '' @ json_string s])"

definition json_other :: "string \<times> string \<Rightarrow> string" where
  "json_other kv = json_string (fst kv) @ '': '' @ snd kv"

fun join_with :: "string \<Rightarrow> string list \<Rightarrow> string" where
  "join_with sep [] = []"
| "join_with sep [x] = x"
| "join_with sep (x # y # ys) = x @ sep @ join_with sep (y # ys)"

definition profile_json :: "metadata_dict \<Rightarrow> string" where
  "profile_json d =
     ''{'' @ join_with '', ''
       (json_item ''name'' (name d) @ json_item ''about'' (about d)
        @ json_item ''nip05'' (nip05 d) @ json_item ''picture'' (picture d)
        @ json_item ''banner'' (banner d) @ json_item ''lud16'' (lud16 d)
        @ json_item ''lud06'' (lud06 d) @ json_item ''username'' (username d)
        @ json_item ''display_name'' (display_name d) @ json_item ''website'' (website d)
        @ map json_other (other d))
     @ ''}''"

subsection \<open>Send and wait\<close>

text \<open>
  Modelled from the spec: \<^verbatim>\<open>EventRelay.send_receive_message\<close> and
  \<^verbatim>\<open>DecryptedMessage\<close> (\<^verbatim>\<open>agentstr.nostr_event_relay\<close>) are not among the sources.
  The spec: the operation ``sends as above, then blocks the calling execution context
  until a reply correlated to the sent event arrives or \<^verbatim>\<open>timeout\<close> elapses. On
  timeout, fails with a distinct "no response" condition (not the same as a successful
  empty response) rather than hanging indefinitely.'' Time is counted in whole units
  from the moment of sending; \<open>replies\<close> are the correlated replies with the time each
  arrives.
\<close>

record DecryptedMessage =
  event_id :: string
  message :: string

datatype send_failure = NoResponse

definition send_receive_message ::
  "(int \<times> DecryptedMessage) list \<Rightarrow> string \<Rightarrow> string \<Rightarrow> int \<Rightarrow> string option
     \<Rightarrow> send_failure + DecryptedMessage" where
  "send_receive_message replies text recipient_pubkey timeout event_ref =
     (case List.find (\<lambda>reply. fst reply \<le> timeout) replies of
        Some reply \<Rightarrow> Inr (snd reply)
      | None \<Rightarrow> Inl NoResponse)"

text \<open>\<^verbatim>\<open>send_direct_message_and_receive_response\<close>, lines 160--167: the facade passes its
  arguments on.\<close>

definition send_direct_message_and_receive_response ::
  "(int \<times> DecryptedMessage) list \<Rightarrow> string \<Rightarrow> string \<Rightarrow> int \<Rightarrow> string option
     \<Rightarrow> send_failure + DecryptedMessage" where
  "send_direct_message_and_receive_response replies recipient_pubkey text timeout event_ref =
     send_receive_message replies text recipient_pubkey timeout event_ref"

section \<open>The claims' own terms\<close>





text \<open>The ten profile fields, as functions on the dictionary of the fields.\<close>

definition profile_fields :: "(profile \<Rightarrow> string option) list" where
  "profile_fields =
     [name, about, nip05, picture, banner, lud16, lud06, username, display_name, website]"

section \<open>Inputs for the closed examples\<close>

text \<open>The card of the spec's end-to-end scenario: one skill \<^verbatim>\<open>translate\<close> at 100, base
  price 50.\<close>

definition translator :: AgentCard where
  "translator =
     \<lparr>AgentCard.name = ''Translator'', description = ''Translates text'',
      skills = [\<lparr>Skill.name = ''translate'', description = ''Translate a text'',
                 satoshis = Some 100\<rparr>],
      satoshis = Some 50, nostr_pubkey = ''npub1translator'', nostr_relays = []\<rparr>"

text \<open>A completion callable that answers every prompt with the same text, and one
  that raises.\<close>

definition llm_says :: "string \<Rightarrow> string \<Rightarrow> exn + pyval" where
  "llm_says answer prompt = Inr (PyStr answer)"



text \<open>Keyword arguments that give the name only, and the profile event a first
  \<^verbatim>\<open>update_metadata(name=...)\<close> on an empty relay publishes.\<close>

definition only_name :: "string \<Rightarrow> profile" where
  "only_name n = no_profile\<lparr>name := Some n\<rparr>"

definition first_profile :: "string \<Rightarrow> Metadata" where
  "first_profile n = new_metadata profile_json 1700000000 None (only_name n)"

text \<open>The metadata of a profile event another client has published, with the content
  \<^verbatim>\<open>{"name": "alice", "about": "", "website": "https://alice.example", "bot": true}\<close>:
  an empty \<^verbatim>\<open>about\<close>, a web site and a key outside the ten fields.\<close>

definition foreign_profile :: Metadata where
  "foreign_profile =
     \<lparr>name = Some ''alice'', about = Some [], nip05 = None, picture = None, banner = None,
      lud16 = None, lud06 = None, username = None, display_name = None,
      website = Some ''https://alice.example'',
      other = [(''bot'', ''true'')], created_at = 1690000000,
      content = ''{\"name\": \"alice\", \"about\": \"\", \"website\": \"https://alice.example\", \"bot\": true}''\<rparr>"

section \<open>Pricing\<close>













section \<open>Failures and malformed responses\<close>


lemma rfind_from_absent: "c \<notin> set s \<Longrightarrow> rfind_from c s i found = found"
  by (induction s arbitrary: i) auto

















section \<open>Conversation memory of the router\<close>












section \<open>The structured response\<close>

lemma validate_strs_strs: "validate_strs field (map PyStr ns) = Inr ns"
  by (induction ns) (simp_all add: validate_str_def)

lemma new_RouterResponse_typed:
  "new_RouterResponse (PyBool b) n (PyStr m) (PyList (map PyStr ns)) =
     Inr \<lparr>can_handle = b, cost_sats = n, user_message = m, skills_used = ns\<rparr>"
  by (simp add: new_RouterResponse_def validate_bool_def validate_str_def validate_str_list_def
      validate_strs_strs)

text \<open>\<^verbatim>\<open>agent_router_v2\<close> leaves the store \<^verbatim>\<open>agent_router\<close> leaves, and whenever the
  components of the router's tuple have the declared types (a boolean, an integer, a
  string, a list of strings), it returns the response whose fields are exactly these
  components.\<close>

lemma agent_router_v2_store:
  "snd (agent_router_v2 loads H msg agent_card llm tid) = snd (agent_router loads H msg agent_card llm tid)"
  by (cases "agent_router loads H msg agent_card llm tid")
     (auto simp: agent_router_v2_def split: prod.splits)

lemma agent_router_v2_typed:
  "fst (agent_router loads H msg agent_card llm tid) = (PyBool b, n, PyStr m, PyList (map PyStr ns))
   \<Longrightarrow> fst (agent_router_v2 loads H msg agent_card llm tid) =
         Inr \<lparr>can_handle = b, cost_sats = n, user_message = m, skills_used = ns\<rparr>"
  by (cases "agent_router loads H msg agent_card llm tid")
     (auto simp: agent_router_v2_def new_RouterResponse_typed split: prod.splits)

text \<open>
  Claim C9 fails in the code. \<^verbatim>\<open>agent_router\<close> returns the decoded \<^verbatim>\<open>can_handle\<close>,
  \<^verbatim>\<open>user_message\<close> and \<^verbatim>\<open>skills_used\<close> as they are, of whatever type, and the
  constructor of \<^verbatim>\<open>RouterResponse\<close> validates them. For the completion text
  \<^verbatim>\<open>{"can_handle": null}\<close> the router returns a tuple whose first component is \<^verbatim>\<open>None\<close>,
  and \<^verbatim>\<open>agent_router_v2\<close> returns no response: \<^verbatim>\<open>ValidationError\<close> escapes to the
  caller. For the completion text \<^verbatim>\<open>{"can_handle": "false", "skills_used": ["translate"]}\<close>
  the router prices the request, the string being true in a test, and
  \<^verbatim>\<open>agent_router_v2\<close> returns a response that declines it at the cost of 150: its
  \<^verbatim>\<open>can_handle\<close> is not the first component of the router's tuple.
\<close>

theorem agent_router_v2_raises:
  "fst (agent_router json_loads Map.empty ''translate this'' translator
          (llm_says ''{\"can_handle\": null}'') None)
     = (PyNone, 0, PyStr [], PyList [])
   \<and> fst (agent_router_v2 json_loads Map.empty ''translate this'' translator
          (llm_says ''{\"can_handle\": null}'') None)
     = Inl (ValidationError ''can_handle'')
   \<and> fst (agent_router json_loads Map.empty ''translate this'' translator
          (llm_says ''{\"can_handle\": \"false\", \"skills_used\": [\"translate\"]}'') None)
     = (PyStr ''false'', 150, PyStr [], PyList [PyStr ''translate''])
   \<and> fst (agent_router_v2 json_loads Map.empty ''translate this'' translator
          (llm_says ''{\"can_handle\": \"false\", \"skills_used\": [\"translate\"]}'') None)
     = Inr \<lparr>can_handle = False, cost_sats = 150, user_message = [],
            skills_used = [''translate'']\<rparr>"
  by code_simp

section \<open>Profile updates\<close>

lemma overlay_idem: "overlay a (overlay a s) = overlay a s"
  by (simp add: overlay_def)

lemma overlay_kept:
  "overlay a (kept s) =
     (if a \<noteq> None \<and> a \<noteq> Some [] then a else if s \<noteq> Some [] then s else None)"
  by (simp add: overlay_def supplied_def kept_def split: option.splits)

lemma kept_overlay_kept: "kept (overlay a (kept s)) = overlay a (kept s)"
  by (simp add: overlay_def supplied_def kept_def split: option.splits)

lemma kept_overlay_none: "kept (overlay a None) = overlay a None"
  by (simp add: overlay_def supplied_def kept_def split: option.splits)

lemma kept_kept: "kept (kept s) = kept s"
  by (simp add: kept_def split: option.splits)

lemma truncate_new_metadata:
  "metadata_dict.truncate (new_metadata serialize now previous args) =
     (let stored = (case previous of
                      Some p \<Rightarrow> metadata_to_dict p
                    | None \<Rightarrow> profile.extend no_profile (metadata_dict.fields []))
      in \<lparr>name = overlay (name args) (name stored),
          about = overlay (about args) (about stored),
          nip05 = overlay (nip05 args) (nip05 stored),
          picture = overlay (picture args) (picture stored),
          banner = overlay (banner args) (banner stored),
          lud16 = overlay (lud16 args) (lud16 stored),
          lud06 = overlay (lud06 args) (lud06 stored),
          username = overlay (username args) (username stored),
          display_name = overlay (display_name args) (display_name stored),
          website = overlay (website args) (website stored),
          other = other stored\<rparr>)"
  by (simp add: new_metadata_def Let_def metadata_dict.defs Metadata.defs)

text \<open>The fields of the new metadata are all unset or non-empty, so its dictionary is
  its fields and other keys as they are.\<close>

lemma dict_of_new_metadata:
  "metadata_to_dict (new_metadata serialize now previous args)
     = metadata_dict.truncate (new_metadata serialize now previous args)"
  by (cases previous)
     (simp_all add: new_metadata_def Let_def metadata_to_dict_def metadata_dict.defs
        Metadata.defs profile.defs no_profile_def kept_overlay_kept kept_kept
        kept_overlay_none)

lemma content_new_metadata:
  "content (new_metadata serialize now previous args) =
     serialize (metadata_dict.truncate (new_metadata serialize now previous args))"
proof -
  have "content (new_metadata serialize now previous args) =
          serialize (metadata_to_dict (metadata_dict.truncate (new_metadata serialize now previous args)))"
    by (simp add: new_metadata_def Let_def metadata_dict.defs Metadata.defs)
  also have "metadata_to_dict (metadata_dict.truncate (new_metadata serialize now previous args))
               = metadata_to_dict (new_metadata serialize now previous args)"
    by (simp add: metadata_to_dict_def metadata_dict.defs)
  finally show ?thesis by (simp only: dict_of_new_metadata)
qed

lemma created_at_new_metadata: "created_at (new_metadata serialize now previous args) = now"
  by (simp add: new_metadata_def Let_def metadata_dict.defs Metadata.defs)

lemma other_new_metadata:
  "other (new_metadata serialize now previous args) = (case previous of Some p \<Rightarrow> other p | None \<Rightarrow> [])"
  by (cases previous)
     (simp_all add: new_metadata_def Let_def metadata_to_dict_def metadata_dict.defs
        Metadata.defs profile.defs)

lemma profile_of_new_metadata:
  "profile.truncate (new_metadata serialize now previous args) =
     (let raw = (case previous of Some p \<Rightarrow> profile.truncate p | None \<Rightarrow> no_profile)
      in \<lparr>name = overlay (name args) (kept (name raw)),
          about = overlay (about args) (kept (about raw)),
          nip05 = overlay (nip05 args) (kept (nip05 raw)),
          picture = overlay (picture args) (kept (picture raw)),
          banner = overlay (banner args) (kept (banner raw)),
          lud16 = overlay (lud16 args) (kept (lud16 raw)),
          lud06 = overlay (lud06 args) (kept (lud06 raw)),
          username = overlay (username args) (kept (username raw)),
          display_name = overlay (display_name args) (kept (display_name raw)),
          website = overlay (website args) (kept (website raw))\<rparr>)"
  by (cases previous)
     (simp_all add: new_metadata_def Let_def metadata_to_dict_def metadata_dict.defs
        Metadata.defs profile.defs no_profile_def kept_def)

lemma truncate_new_metadata_again:
  "metadata_dict.truncate (new_metadata serialize now' (Some (new_metadata serialize now previous args)) args)
     = metadata_dict.truncate (new_metadata serialize now previous args)"
  by (simp add: truncate_new_metadata[of serialize now' "Some (new_metadata serialize now previous args)"]
        dict_of_new_metadata)
     (simp add: truncate_new_metadata Let_def overlay_idem)

lemma truncate_new_metadata_now:
  "metadata_dict.truncate (new_metadata serialize now' previous args)
     = metadata_dict.truncate (new_metadata serialize now previous args)"
  by (simp add: truncate_new_metadata)

text \<open>
  Claim C5 as stated fails: with the stored name \<^verbatim>\<open>alice\<close>, a call that supplies the
  empty string as name keeps \<^verbatim>\<open>alice\<close>, and publishes nothing.
\<close>

theorem empty_string_argument_counterexample:
  "name (new_metadata profile_json 1700000100 (Some (first_profile ''alice'')) (only_name []))
     = Some ''alice''
   \<and> update_metadata profile_json 1700000100 (only_name []) [first_profile ''alice'']
     = [first_profile ''alice'']"
  by code_simp

text \<open>
  Claim C5, as amended. For every call and every stored metadata (or none), each of the
  ten fields of the new metadata is the argument of the call when that is a non-empty
  string; otherwise it is the stored value when that is a non-empty string, and unset
  when the stored value is unset or the empty string (a stored empty string is not
  carried over). The keys the stored metadata has besides the ten fields are carried
  over unchanged. The new metadata carries the time of the call, and its content is the
  serialisation of its fields and other keys; what the call publishes, if anything, is
  this metadata.
\<close>

theorem update_metadata_overlay:
  fixes serialize :: "metadata_dict \<Rightarrow> string" and previous :: "Metadata option"
    and now :: int and args :: profile
  defines "stored \<equiv> (case previous of Some p \<Rightarrow> profile.truncate p | None \<Rightarrow> no_profile)"
    and "metadata \<equiv> new_metadata serialize now previous args"
  shows
  "(\<forall>field \<in> set profile_fields.
      field (profile.truncate metadata) =
        (if field args \<noteq> None \<and> field args \<noteq> Some [] then field args
         else if field stored \<noteq> Some [] then field stored
         else None))
   \<and> other metadata = (case previous of Some p \<Rightarrow> other p | None \<Rightarrow> [])
   \<and> created_at metadata = now
   \<and> content metadata = serialize (metadata_dict.truncate metadata)
   \<and> (metadata_to_send serialize now previous args = None
      \<or> metadata_to_send serialize now previous args = Some metadata)"
proof -
  have fields: "\<forall>field \<in> set profile_fields.
      field (profile.truncate metadata) =
        (if field args \<noteq> None \<and> field args \<noteq> Some [] then field args
         else if field stored \<noteq> Some [] then field stored
         else None)"
    unfolding stored_def metadata_def
    by (simp add: profile_fields_def profile_of_new_metadata Let_def overlay_kept)
  have sent: "metadata_to_send serialize now previous args = None
      \<or> metadata_to_send serialize now previous args = Some metadata"
    unfolding metadata_def by (cases previous) (simp_all add: metadata_to_send_def Let_def)
  have rest: "other metadata = (case previous of Some p \<Rightarrow> other p | None \<Rightarrow> [])"
    "created_at metadata = now"
    "content metadata = serialize (metadata_dict.truncate metadata)"
    unfolding metadata_def
    by (rule other_new_metadata, rule created_at_new_metadata, rule content_new_metadata)
  from fields sent rest show ?thesis
    by blast
qed

theorem update_metadata_overlay_witness:
  "name \<in> set profile_fields \<and> about \<in> set profile_fields \<and> website \<in> set profile_fields
   \<and> name (profile.truncate (new_metadata profile_json 1700000100 (Some foreign_profile)
        (no_profile\<lparr>name := Some ''bob'', website := Some []\<rparr>))) = Some ''bob''
   \<and> about (profile.truncate (new_metadata profile_json 1700000100 (Some foreign_profile)
        (no_profile\<lparr>name := Some ''bob'', website := Some []\<rparr>))) = None
   \<and> website (profile.truncate (new_metadata profile_json 1700000100 (Some foreign_profile)
        (no_profile\<lparr>name := Some ''bob'', website := Some []\<rparr>))) = Some ''https://alice.example''
   \<and> other (new_metadata profile_json 1700000100 (Some foreign_profile)
        (no_profile\<lparr>name := Some ''bob'', website := Some []\<rparr>)) = [(''bot'', ''true'')]"
proof -
  let ?args = "no_profile\<lparr>name := Some ''bob'', website := Some []\<rparr>"
  let ?metadata = "new_metadata profile_json 1700000100 (Some foreign_profile) ?args"
  have f: "name \<in> set profile_fields" "about \<in> set profile_fields"
    "website \<in> set profile_fields"
    by (simp_all add: profile_fields_def)
  have s: "name (profile.truncate foreign_profile) = Some ''alice''"
    "about (profile.truncate foreign_profile) = Some []"
    "website (profile.truncate foreign_profile) = Some ''https://alice.example''"
    "other foreign_profile = [(''bot'', ''true'')]"
    by (simp_all add: foreign_profile_def profile.defs)
  have a: "name ?args = Some ''bob''" "about ?args = None" "website ?args = Some []"
    by (simp_all add: no_profile_def)
  note t = update_metadata_overlay[where serialize = profile_json and now = 1700000100
        and previous = "Some foreign_profile" and args = ?args, unfolded option.case]
  from t have all: "\<forall>field \<in> set profile_fields.
      field (profile.truncate ?metadata) =
        (if field ?args \<noteq> None \<and> field ?args \<noteq> Some [] then field ?args
         else if field (profile.truncate foreign_profile) \<noteq> Some []
           then field (profile.truncate foreign_profile)
         else None)"
    by (rule conjunct1)
  from t have o: "other ?metadata = other foreign_profile"
    by (rule conjunct1[OF conjunct2])
  have n: "name (profile.truncate ?metadata) = Some ''bob''"
    using bspec[OF all f(1)] by (simp only: a s) simp
  have b: "about (profile.truncate ?metadata) = None"
    using bspec[OF all f(2)] by (simp only: a s) simp
  have w: "website (profile.truncate ?metadata) = Some ''https://alice.example''"
    using bspec[OF all f(3)] by (simp only: a s) simp
  from f n b w o s(4) show ?thesis
    by (simp only:)
qed

text \<open>A stored empty string is a change: with the stored \<^verbatim>\<open>about\<close> empty, a call
  without arguments publishes a new event, in which \<^verbatim>\<open>about\<close> is unset and the other
  key is kept.\<close>

lemma stored_empty_string_dropped:
  "publishes [foreign_profile] (update_metadata profile_json 1700000100 no_profile [foreign_profile]) = 1
   \<and> about (new_metadata profile_json 1700000100 (Some foreign_profile) no_profile) = None
   \<and> other (new_metadata profile_json 1700000100 (Some foreign_profile) no_profile)
       = [(''bot'', ''true'')]"
  by code_simp

lemma update_metadata_step:
  "update_metadata serialize now args r =
     (if (case get_metadata_for_pubkey r of
            None \<Rightarrow> True
          | Some previous \<Rightarrow>
              content previous \<noteq> content (new_metadata serialize now (Some previous) args))
      then new_metadata serialize now (get_metadata_for_pubkey r) args # r
      else r)"
  by (simp add: update_metadata_def metadata_to_send_def send_event_def Let_def
      split: option.splits)

lemma content_new_metadata_now:
  "content (new_metadata serialize now' previous args) = content (new_metadata serialize now previous args)"
  by (simp add: content_new_metadata truncate_new_metadata)

lemma content_new_metadata_again:
  "content (new_metadata serialize now' (Some (new_metadata serialize now previous args)) args)
     = content (new_metadata serialize now previous args)"
  by (simp only: content_new_metadata truncate_new_metadata_again)

lemma update_metadata_again:
  "update_metadata serialize now' args (update_metadata serialize now args r)
     = update_metadata serialize now args r"
proof (cases r)
  case Nil
  then show ?thesis
    by (simp add: update_metadata_step get_metadata_for_pubkey_def content_new_metadata_again)
next
  case (Cons previous older)
  show ?thesis
  proof (cases "content previous = content (new_metadata serialize now (Some previous) args)")
    case True
    then have "content previous = content (new_metadata serialize now' (Some previous) args)"
      using content_new_metadata_now[of serialize now' "Some previous" args now] by simp
    with True Cons show ?thesis
      by (simp add: update_metadata_step get_metadata_for_pubkey_def)
  next
    case False
    with Cons show ?thesis
      by (simp add: update_metadata_step get_metadata_for_pubkey_def content_new_metadata_again)
  qed
qed

text \<open>
  Claim C6 as stated fails in its second half: when the relay already holds the profile
  with name \<^verbatim>\<open>X\<close>, two calls \<^verbatim>\<open>update_metadata(name="X")\<close> in succession publish
  nothing.
\<close>

theorem unchanged_profile_counterexample:
  "publishes [first_profile ''X'']
     (update_metadata profile_json 1700000200 (only_name ''X'')
        (update_metadata profile_json 1700000100 (only_name ''X'') [first_profile ''X'']))
   = 0"
  by code_simp

text \<open>
  Claim C6, as amended. \<^verbatim>\<open>update_metadata\<close> publishes the new metadata if no metadata
  is stored or the content of the stored metadata differs from the new content, and
  publishes nothing otherwise. A second call with the same arguments right after the
  first publishes nothing. So the two calls together publish once if the first changes
  the stored content (or nothing was stored), and not at all otherwise.
\<close>

theorem update_metadata_publishes:
  fixes serialize :: "metadata_dict \<Rightarrow> string" and now now' :: int and args :: profile and r :: relay
  defines "differs \<equiv>
     (case get_metadata_for_pubkey r of
        None \<Rightarrow> True
      | Some previous \<Rightarrow>
          content previous \<noteq> content (new_metadata serialize now (Some previous) args))"
    and "r1 \<equiv> update_metadata serialize now args r"
  shows
  "r1 = (if differs then new_metadata serialize now (get_metadata_for_pubkey r) args # r else r)
   \<and> publishes r r1 = (if differs then 1 else 0)
   \<and> publishes r1 (update_metadata serialize now' args r1) = 0
   \<and> publishes r (update_metadata serialize now' args r1) = (if differs then 1 else 0)"
  unfolding differs_def r1_def
  by (simp add: update_metadata_again) (simp add: update_metadata_step publishes_def)

theorem update_metadata_publishes_witness:
  "publishes [] (update_metadata profile_json 1700000000 (only_name ''X'') []) = 1
   \<and> publishes []
       (update_metadata profile_json 1700000100 (only_name ''X'')
          (update_metadata profile_json 1700000000 (only_name ''X'') []))
     = 1"
  using update_metadata_publishes[of profile_json 1700000000 "only_name ''X''" "[]" 1700000100]
  unfolding get_metadata_for_pubkey_def list.case option.case if_True
  by blast

section \<open>Send and wait\<close>

text \<open>
  Claim C8. When no correlated reply arrives within the timeout, the operation ends
  with the failure \<open>NoResponse\<close>; a reply that arrives in time is returned; and the
  failure is a value different from every reply, the reply with empty content included.
\<close>

theorem no_reply_is_no_response:
  "((\<forall>reply \<in> set replies. timeout < fst reply) \<longrightarrow>
      send_direct_message_and_receive_response replies recipient_pubkey txt timeout event_ref
        = Inl NoResponse)
   \<and> (List.find (\<lambda>reply. fst reply \<le> timeout) replies = Some reply \<longrightarrow>
      send_direct_message_and_receive_response replies recipient_pubkey txt timeout event_ref
        = Inr (snd reply))
   \<and> Inl NoResponse \<noteq> (Inr m :: send_failure + DecryptedMessage)
   \<and> Inl NoResponse \<noteq> (Inr \<lparr>event_id = ev, message = []\<rparr> :: send_failure + DecryptedMessage)"
proof (intro conjI impI)
  assume "\<forall>reply \<in> set replies. timeout < fst reply"
  then have "List.find (\<lambda>reply. fst reply \<le> timeout) replies = None"
    by (auto simp: find_None_iff)
  then show "send_direct_message_and_receive_response replies recipient_pubkey txt timeout event_ref
        = Inl NoResponse"
    by (simp add: send_direct_message_and_receive_response_def send_receive_message_def)
next
  assume "List.find (\<lambda>reply. fst reply \<le> timeout) replies = Some reply"
  then show "send_direct_message_and_receive_response replies recipient_pubkey txt timeout event_ref
        = Inr (snd reply)"
    by (simp add: send_direct_message_and_receive_response_def send_receive_message_def)
next
  show "Inl NoResponse \<noteq> (Inr m :: send_failure + DecryptedMessage)"
    by simp
next
  show "Inl NoResponse \<noteq> (Inr \<lparr>event_id = ev, message = []\<rparr> :: send_failure + DecryptedMessage)"
    by simp
qed

theorem no_reply_is_no_response_witness:
  "(1::int) < fst (5::int, \<lparr>event_id = ''e1'', message = []\<rparr>)
   \<and> send_direct_message_and_receive_response [(5, \<lparr>event_id = ''e1'', message = []\<rparr>)]
        ''npub1peer'' ''ping'' 1 None
     = Inl NoResponse
   \<and> send_direct_message_and_receive_response [(5, \<lparr>event_id = ''e1'', message = []\<rparr>)]
        ''npub1peer'' ''ping'' 30 None
     = Inr \<lparr>event_id = ''e1'', message = []\<rparr>"
proof -
  let ?replies = "[(5::int, \<lparr>event_id = ''e1'', message = []\<rparr>)]"
  have late: "\<forall>reply \<in> set ?replies. (1::int) < fst reply"
    by simp
  have found: "List.find (\<lambda>reply. fst reply \<le> (30::int)) ?replies
                 = Some (5, \<lparr>event_id = ''e1'', message = []\<rparr>)"
    by simp
  from late found
    no_reply_is_no_response[of ?replies 1 "''npub1peer''" "''ping''" None]
    no_reply_is_no_response[of ?replies 30 "''npub1peer''" "''ping''" None
      "(5, \<lparr>event_id = ''e1'', message = []\<rparr>)"]
  show ?thesis by simp
qed

section \<open>Further properties of the router\<close>

lemma find_from_first:
  "c \<notin> set pre \<Longrightarrow> find_from c (pre @ c # rest) i = i + int (length pre)"
  by (induction pre arbitrary: i) auto

lemma rfind_from_last:
  "c \<notin> set post \<Longrightarrow> rfind_from c (xs @ c # post) i found = i + int (length xs)"
  by (induction xs arbitrary: i found) (auto simp: rfind_from_absent)

text \<open>
  The lenient parse of line 161: when the completion text is some prose without an
  opening brace, an object in braces, and some prose without a closing brace, the slice
  handed to the decoder is exactly the object.
\<close>

theorem brace_slice_tolerates_prose:
  "CHR ''{'' \<notin> set pre \<and> CHR ''}'' \<notin> set post \<longrightarrow>
   brace_slice (pre @ ''{'' @ body @ ''}'' @ post) = ''{'' @ body @ ''}''"
proof
  assume a: "CHR ''{'' \<notin> set pre \<and> CHR ''}'' \<notin> set post"
  let ?s = "pre @ ''{'' @ body @ ''}'' @ post"
  have f: "str_find ?s (CHR ''{'') = int (length pre)"
    using a find_from_first[of "CHR ''{''" pre "body @ ''}'' @ post" 0]
    by (simp add: str_find_def)
  have r: "str_rfind ?s (CHR ''}'') = int (length pre) + 1 + int (length body)"
    using a rfind_from_last[of "CHR ''}''" post "pre @ ''{'' @ body" 0 "- 1"]
    by (simp add: str_rfind_def)
  have n: "nat (2 + (int (length pre) + int (length body))) - length pre = Suc (Suc (length body))"
  proof -
    have "2 + (int (length pre) + int (length body)) = int (length pre + Suc (Suc (length body)))"
      by simp
    then show ?thesis by (simp only: nat_int diff_add_inverse)
  qed
  show "brace_slice ?s = ''{'' @ body @ ''}''"
    unfolding brace_slice_def f r
    by (simp add: py_slice_def slice_index_def Let_def n)
qed

theorem brace_slice_tolerates_prose_witness:
  "CHR ''{'' \<notin> set ''Sure! '' \<and> CHR ''}'' \<notin> set '' Anything else?''
   \<and> brace_slice (''Sure! '' @ ''{'' @ ''\"can_handle\": true'' @ ''}'' @ '' Anything else?'')
     = ''{\"can_handle\": true}''"
  using brace_slice_tolerates_prose[of "''Sure! ''" "'' Anything else?''" "''\"can_handle\": true''"]
  by simp

text \<open>
  Skill names are matched without regard to case (line 181): two names with the same
  lowered form are priced alike against every card.
\<close>

theorem skill_name_case_insensitive:
  "lower a = lower b \<longrightarrow> skill_price card_skills (PyStr a) = skill_price card_skills (PyStr b)"
  by (induction card_skills) (auto split: option.splits)

theorem skill_name_case_insensitive_witness:
  "lower ''translate'' = lower ''TRANSLATE''
   \<and> skill_price [\<lparr>Skill.name = ''Translate'', description = ''Translate a text'', satoshis = Some 100\<rparr>]
        (PyStr ''translate'') = Inr 100
   \<and> skill_price [\<lparr>Skill.name = ''Translate'', description = ''Translate a text'', satoshis = Some 100\<rparr>]
        (PyStr ''TRANSLATE'') = Inr 100"
proof -
  have l: "lower ''translate'' = lower ''TRANSLATE''"
    by code_simp
  have p: "skill_price [\<lparr>Skill.name = ''Translate'', description = ''Translate a text'', satoshis = Some 100\<rparr>]
        (PyStr ''translate'') = Inr 100"
    by code_simp
  from l p skill_name_case_insensitive[of "''translate''" "''TRANSLATE''"
      "[\<lparr>Skill.name = ''Translate'', description = ''Translate a text'', satoshis = Some 100\<rparr>]"]
  show ?thesis by simp
qed

text \<open>
  The three end-to-end scenarios of the spec: the priced skill and the base price give
  150; no skill used gives the base price 50; a card without skills and base price
  gives 0.
\<close>

theorem end_to_end_scenarios:
  "fst (agent_router json_loads Map.empty ''translate this'' translator
     (llm_says ''{\"can_handle\":true,\"user_message\":\"I will translate it.\",\"skills_used\":[\"translate\"]}'')
     None)
     = (PyBool True, 150, PyStr ''I will translate it.'', PyList [PyStr ''translate''])
   \<and> fst (agent_router json_loads Map.empty ''translate this'' translator
     (llm_says ''{\"can_handle\":true,\"user_message\":\"Sure.\",\"skills_used\":[]}'') None)
     = (PyBool True, 50, PyStr ''Sure.'', PyList [])
   \<and> fst (agent_router json_loads Map.empty ''translate this''
     (translator\<lparr>skills := [], AgentCard.satoshis := None\<rparr>)
     (llm_says ''{\"can_handle\":true}'') None)
     = (PyBool True, 0, PyStr [], PyList [])"
  by code_simp

end
